theory Spec2Isabelle
  imports Main
begin

section \<open>Data model of sql.py\<close>

text \<open>
  The exceptions the modelled code can raise: the module's own \<open>InvalidTypeError\<close>
  and \<open>InvalidOrderError\<close>, and Python's \<open>AttributeError\<close> and \<open>TypeError\<close>.
  A call returns \<open>Inl e\<close> when it raises \<open>e\<close> and \<open>Inr v\<close> when it returns \<open>v\<close>;
  it is paired with the context it leaves behind, since the context is a shared mutable
  object and survives an exception.
\<close>

datatype error = InvalidTypeError | InvalidOrderError | AttributeError | TypeError

text \<open>
  The three concrete subclasses of \<open>Column\<close>. The base class is abstract (its
  \<open>create\<close> raises \<open>NotImplementedError\<close>) and is never instantiated.
\<close>

datatype kind = IntegerColumn | StringColumn | DateTimeColumn

text \<open>
  A column after \<open>MetaTable.__new__\<close> has bound it: \<open>table_name\<close> is the name of the
  table class as written, \<open>column_name\<close> the attribute name.
\<close>

record column =
  table_name :: string
  column_name :: string
  kind :: kind

text \<open>
  A table class: its \<open>__name__\<close> and the list \<open>all\<close> that \<open>MetaTable\<close> collects.
\<close>

record table =
  class_name :: string
  all_columns :: "column list"

text \<open>
  Literal values that reach the library: Python integers (instances of \<open>Number\<close>),
  a \<open>str\<close> (an instance of \<open>basestring\<close>) and \<open>None\<close> (an instance of neither).
  Python 2 has two integer types: \<open>Num i\<close> is the integer \<open>i\<close> as Python holds it
  when it is written without a suffix or computed, an \<open>int\<close> from \<open>-sys.maxint - 1\<close>
  to \<open>sys.maxint\<close> and a \<open>long\<close> beyond; \<open>Long i\<close> is a \<open>long\<close> of any size,
  such as \<open>1L\<close>. The right operand of a comparison is a literal or another column.
\<close>

datatype literal = Num int | Long int | Str string | NoneVal

text \<open>\<open>sys.maxint\<close> of CPython 2 on a 64-bit platform\<close>

definition maxint :: int where
  "maxint = 2 ^ 63 - 1"

fun is_long :: "literal \<Rightarrow> bool" where
  "is_long (Num i) = (i < - maxint - 1 \<or> maxint < i)"
| "is_long (Long _) = True"
| "is_long _ = False"

datatype operand = Lit literal | Col column

text \<open>
  \<open>SingletoneData\<close> is a singleton shared by every column and every builder of the
  process: \<open>last_method\<close> and \<open>data\<close>. A builder adds its own fragment list
  \<open>sql\<close> and \<open>select_columns\<close>. The record holds the shared data and the two
  fields of the builder in use.
\<close>

record build_context =
  last_method :: string
  data :: "literal list"
  sql :: "string list"
  select_columns :: "string list"

text \<open>The first builder of a process: \<open>SingletoneData.__init__\<close> has just run.\<close>

definition initial :: build_context where
  "initial = \<lparr>last_method = [], data = [], sql = [], select_columns = []\<rparr>"


section \<open>Python string primitives\<close>

text \<open>\<open>sep.join(xs)\<close>\<close>

fun join :: "string \<Rightarrow> string list \<Rightarrow> string" where
  "join sep [] = []"
| "join sep [x] = x"
| "join sep (x # y # ys) = x @ sep @ join sep (y # ys)"

text \<open>\<open>s.split(sep)\<close> for a one-character separator\<close>

fun py_split :: "char \<Rightarrow> string \<Rightarrow> string list" where
  "py_split sep [] = [[]]"
| "py_split sep (c # cs) =
     (if c = sep then [] # py_split sep cs
      else (case py_split sep cs of
              [] \<Rightarrow> [[c]]
            | p # ps \<Rightarrow> (c # p) # ps))"

text \<open>\<open>s.lower()\<close> on ASCII\<close>

definition lower_char :: "char \<Rightarrow> char" where
  "lower_char c =
     (case map_of (zip ''ABCDEFGHIJKLMNOPQRSTUVWXYZ'' ''abcdefghijklmnopqrstuvwxyz'') c of
        Some l \<Rightarrow> l
      | None \<Rightarrow> c)"

definition py_lower :: "string \<Rightarrow> string" where
  "py_lower s = map lower_char s"

text \<open>
  \<open>str(n)\<close> of an integer: decimal digits, with a sign. \<open>repr(n)\<close> is the same
  for an \<open>int\<close> and ends in \<open>L\<close> for a \<open>long\<close>.
  \<open>digit_char\<close> also serves the hexadecimal escapes of \<open>repr\<close> below.
\<close>

definition digit_char :: "nat \<Rightarrow> char" where
  "digit_char d = ''0123456789abcdef'' ! d"

fun digits :: "nat \<Rightarrow> string" where
  "digits n = (if n < 10 then [digit_char n] else digits (n div 10) @ [digit_char (n mod 10)])"

declare digits.simps [simp del]

definition str_int :: "int \<Rightarrow> string" where
  "str_int i = (if i < 0 then CHR ''-'' # digits (nat (- i)) else digits (nat i))"

text \<open>
  \<open>repr(s)\<close> of a \<open>str\<close>: single quotes, unless the string holds a single quote and
  no double quote; the quote and the backslash are escaped, tab, newline and carriage
  return are written symbolically, every other byte outside the printable ASCII range
  as \<open>\xNN\<close>.
\<close>

definition repr_char :: "char \<Rightarrow> char \<Rightarrow> string" where
  "repr_char quote c =
     (let n = (of_char c :: nat)
      in if c = quote \<or> c = CHR 0x5C then [CHR 0x5C, c]
         else if c = CHR 0x09 then [CHR 0x5C, CHR ''t'']
         else if c = CHR 0x0A then [CHR 0x5C, CHR ''n'']
         else if c = CHR 0x0D then [CHR 0x5C, CHR ''r'']
         else if n < 32 \<or> 127 \<le> n
           then [CHR 0x5C, CHR ''x'', digit_char (n div 16), digit_char (n mod 16)]
         else [c])"

definition repr_str :: "string \<Rightarrow> string" where
  "repr_str s =
     (let quote = (if CHR 0x27 \<in> set s \<and> CHR 0x22 \<notin> set s
                   then CHR 0x22 else CHR 0x27)
      in [quote] @ concat (map (repr_char quote) s) @ [quote])"

fun py_repr :: "literal \<Rightarrow> string" where
  "py_repr (Num i) = (if is_long (Num i) then str_int i @ ''L'' else str_int i)"
| "py_repr (Long i) = str_int i @ ''L''"
| "py_repr (Str s) = repr_str s"
| "py_repr NoneVal = ''None''"

fun py_str :: "literal \<Rightarrow> string" where
  "py_str (Num i) = str_int i"
| "py_str (Long i) = str_int i"
| "py_str (Str s) = s"
| "py_str NoneVal = ''None''"

text \<open>\<open>str(tuple(arg))\<close>: a one-element tuple is written with a trailing comma\<close>

fun str_tuple :: "literal list \<Rightarrow> string" where
  "str_tuple [] = ''()''"
| "str_tuple [x] = ''('' @ py_repr x @ '',)''"
| "str_tuple xs = ''('' @ join '', '' (map py_repr xs) @ '')''"

section \<open>Column comparisons\<close>

text \<open>
  A comparison returns the rendered condition and may append to \<open>data\<close>. The four
  ordering methods of \<open>Column\<close> differ in their sign only, and so do \<open>__eq__\<close> and
  \<open>__ne__\<close>.
\<close>

type_synonym 'a call = "build_context \<Rightarrow> (error + 'a) \<times> build_context"

datatype cmpop = Lt | Le | Gt | Ge | Eq | Ne

fun op_sign :: "cmpop \<Rightarrow> string" where
  "op_sign Lt = '' < ''"
| "op_sign Le = '' <= ''"
| "op_sign Gt = '' > ''"
| "op_sign Ge = '' >= ''"
| "op_sign Eq = '' = ''"
| "op_sign Ne = '' != ''"

definition full_name :: "column \<Rightarrow> string" where
  "full_name c = table_name c @ ''.'' @ column_name c"

text \<open>\<open>Column.__lt__\<close>, \<open>__le__\<close>, \<open>__gt__\<close>, \<open>__ge__\<close>\<close>

definition Column_ordering :: "cmpop \<Rightarrow> column \<Rightarrow> operand \<Rightarrow> string call" where
  "Column_ordering opr self right s =
     (let right' = (case right of Col r \<Rightarrow> Str (full_name r) | Lit v \<Rightarrow> v);
          left = full_name self;
          txt = left @ op_sign opr @ ''?''
      in (Inr txt, s\<lparr>data := data s @ [right']\<rparr>))"

text \<open>
  \<open>Column.__eq__\<close>, \<open>__ne__\<close>. In state \<open>Join\<close> the operand is concatenated to the
  text, which raises \<open>TypeError\<close> unless it is a string by then.
\<close>

definition Column_equality :: "cmpop \<Rightarrow> column \<Rightarrow> operand \<Rightarrow> string call" where
  "Column_equality opr self right s =
     (let right' = (case right of
                      Col r \<Rightarrow> if last_method s \<noteq> ''Update'' then Str (full_name r)
                               else Str (column_name r)
                    | Lit v \<Rightarrow> v);
          left = (if last_method s \<noteq> ''Update'' then full_name self else column_name self);
          txt = left @ op_sign opr
      in if last_method s = ''Join''
         then (case right' of
                 Str t \<Rightarrow> (Inr (txt @ t), s)
               | _ \<Rightarrow> (Inl TypeError, s))
         else (Inr (txt @ ''?''), s\<lparr>data := data s @ [right']\<rparr>))"

fun Column_cmp :: "cmpop \<Rightarrow> column \<Rightarrow> operand \<Rightarrow> string call" where
  "Column_cmp Eq = Column_equality Eq"
| "Column_cmp Ne = Column_equality Ne"
| "Column_cmp opr = Column_ordering opr"

text \<open>\<open>Column.In\<close>, \<open>Column.NotIn\<close>: the context is not touched\<close>

definition Column_In :: "column \<Rightarrow> literal list \<Rightarrow> string call" where
  "Column_In self arg s =
     (let left = full_name self;
          right = str_tuple arg
      in (Inr (left @ '' IN '' @ right), s))"

definition Column_NotIn :: "column \<Rightarrow> literal list \<Rightarrow> string call" where
  "Column_NotIn self arg s =
     (let left = full_name self;
          right = str_tuple arg
      in (Inr (left @ '' NOT IN '' @ right), s))"

subsection \<open>The \<open>validate_type\<close> decorators\<close>

fun is_Number :: "operand \<Rightarrow> bool" where
  "is_Number (Lit (Num _)) = True"
| "is_Number (Lit (Long _)) = True"
| "is_Number _ = False"

fun is_basestring :: "operand \<Rightarrow> bool" where
  "is_basestring (Lit (Str _)) = True"
| "is_basestring _ = False"

fun is_Column :: "operand \<Rightarrow> bool" where
  "is_Column (Col _) = True"
| "is_Column _ = False"

text \<open>\<open>right.split('-')\<close>: only a string has the attribute \<open>split\<close>\<close>

fun operand_split :: "operand \<Rightarrow> error + string list" where
  "operand_split (Lit (Str t)) = Inr (py_split CHR ''-'' t)"
| "operand_split _ = Inl AttributeError"

definition IntegerColumn_validate_type ::
  "(column \<Rightarrow> operand \<Rightarrow> string call) \<Rightarrow> column \<Rightarrow> operand \<Rightarrow> string call" where
  "IntegerColumn_validate_type fn self right s =
     (if \<not> is_Number right \<and> \<not> is_Column right then (Inl InvalidTypeError, s)
      else fn self right s)"

definition StringColumn_validate_type ::
  "(column \<Rightarrow> operand \<Rightarrow> string call) \<Rightarrow> column \<Rightarrow> operand \<Rightarrow> string call" where
  "StringColumn_validate_type fn self right s =
     (if \<not> is_basestring right \<and> \<not> is_Column right then (Inl InvalidTypeError, s)
      else fn self right s)"

text \<open>
  The condition of \<open>DateTimeColumn.validate_type\<close> is
  \<open>not isinstance(right, Column) and not isinstance(right, basestring) or
  len(right.split('-')) != 3\<close>: \<open>and\<close> binds tighter than \<open>or\<close>, so the second
  disjunct is evaluated whenever the first is false.
\<close>

definition DateTimeColumn_validate_type ::
  "(column \<Rightarrow> operand \<Rightarrow> string call) \<Rightarrow> column \<Rightarrow> operand \<Rightarrow> string call" where
  "DateTimeColumn_validate_type fn self right s =
     (if \<not> is_Column right \<and> \<not> is_basestring right then (Inl InvalidTypeError, s)
      else (case operand_split right of
              Inl e \<Rightarrow> (Inl e, s)
            | Inr parts \<Rightarrow>
                if length parts \<noteq> 3 then (Inl InvalidTypeError, s)
                else fn self right s))"

subsection \<open>The comparison methods of the three subclasses\<close>

definition IntegerColumn_cmp :: "cmpop \<Rightarrow> column \<Rightarrow> operand \<Rightarrow> string call" where
  "IntegerColumn_cmp opr = IntegerColumn_validate_type (Column_cmp opr)"

definition invalid_sign :: "column \<Rightarrow> operand \<Rightarrow> string call" where
  "invalid_sign self right s = (Inl InvalidTypeError, s)"

text \<open>\<open>StringColumn.__lt__\<close> is not decorated; the other five methods are.\<close>

fun StringColumn_cmp :: "cmpop \<Rightarrow> column \<Rightarrow> operand \<Rightarrow> string call" where
  "StringColumn_cmp Lt = invalid_sign"
| "StringColumn_cmp Le = StringColumn_validate_type invalid_sign"
| "StringColumn_cmp Gt = StringColumn_validate_type invalid_sign"
| "StringColumn_cmp Ge = StringColumn_validate_type invalid_sign"
| "StringColumn_cmp Eq = StringColumn_validate_type (Column_cmp Eq)"
| "StringColumn_cmp Ne = StringColumn_validate_type (Column_cmp Ne)"

definition DateTimeColumn_cmp :: "cmpop \<Rightarrow> column \<Rightarrow> operand \<Rightarrow> string call" where
  "DateTimeColumn_cmp opr = DateTimeColumn_validate_type (Column_cmp opr)"

text \<open>Method dispatch on the class of \<open>self\<close>\<close>

definition compare :: "cmpop \<Rightarrow> column \<Rightarrow> operand \<Rightarrow> string call" where
  "compare opr self =
     (case kind self of
        IntegerColumn \<Rightarrow> IntegerColumn_cmp opr self
      | StringColumn \<Rightarrow> StringColumn_cmp opr self
      | DateTimeColumn \<Rightarrow> DateTimeColumn_cmp opr self)"

text \<open>\<open>create\<close>: column name and type for \<open>CREATE TABLE\<close>\<close>

definition create :: "column \<Rightarrow> string" where
  "create self =
     (case kind self of
        IntegerColumn \<Rightarrow> column_name self @ '' INT''
      | StringColumn \<Rightarrow> column_name self @ '' TEXT''
      | DateTimeColumn \<Rightarrow> '' '' @ column_name self @ '' DATETIME'')"

text \<open>\<open>Table.get_name\<close>\<close>

definition get_name :: "table \<Rightarrow> string" where
  "get_name t = py_lower (class_name t)"

section \<open>SqlBuilder\<close>

text \<open>
  An argument of \<open>Select\<close> is a column or a list of columns (\<open>Table.all\<close>).
  A clause call is a method of \<open>SqlBuilder\<close> with its arguments; the type parameter is
  the type of the condition arguments: \<open>string\<close> for the call itself, which receives
  conditions already rendered.
\<close>

datatype sel_arg = ColArg column | ListArg "column list"

datatype 'c clause =
    Select "sel_arg list"
  | Update table
  | Insert table
  | Delete
  | From "table list"
  | Where "'c list"
  | InnerJoin table
  | OuterJoin table
  | LeftJoin table
  | RightJoin table
  | On "'c list"
  | And "'c list"
  | Or "'c list"
  | Columns "column list"
  | Values "literal list"
  | Set "'c list"
  | LeftBracket "'c list"
  | RightBracket
  | CreateTable table
  | DropTable table

fun fn_name :: "'c clause \<Rightarrow> string" where
  "fn_name (Select _) = ''Select''"
| "fn_name (Update _) = ''Update''"
| "fn_name (Insert _) = ''Insert''"
| "fn_name Delete = ''Delete''"
| "fn_name (From _) = ''From''"
| "fn_name (Where _) = ''Where''"
| "fn_name (InnerJoin _) = ''InnerJoin''"
| "fn_name (OuterJoin _) = ''OuterJoin''"
| "fn_name (LeftJoin _) = ''LeftJoin''"
| "fn_name (RightJoin _) = ''RightJoin''"
| "fn_name (On _) = ''On''"
| "fn_name (And _) = ''And''"
| "fn_name (Or _) = ''Or''"
| "fn_name (Columns _) = ''Columns''"
| "fn_name (Values _) = ''Values''"
| "fn_name (Set _) = ''Set''"
| "fn_name (LeftBracket _) = ''LeftBracket''"
| "fn_name RightBracket = ''RightBracket''"
| "fn_name (CreateTable _) = ''CreateTable''"
| "fn_name (DropTable _) = ''DropTable''"

text \<open>Every method but the two bracket helpers carries \<open>@check_order\<close>.\<close>

fun decorated :: "'c clause \<Rightarrow> bool" where
  "decorated (LeftBracket _) = False"
| "decorated RightBracket = False"
| "decorated _ = True"

subsection \<open>The \<open>check_order\<close> decorator\<close>

definition clear_data :: "build_context \<Rightarrow> build_context" where
  "clear_data s = s\<lparr>sql := [], data := []\<rparr>"

text \<open>
  The part of \<open>nested\<close> before \<open>fn\<close> is called: an \<open>if\<close>/\<open>elif\<close> chain on
  \<open>fn.__name__\<close>. A name that no branch mentions falls through unchanged.
\<close>

definition check_order :: "string \<Rightarrow> unit call" where
  "check_order name s =
     (if name = ''Select'' then (Inr (), (clear_data s)\<lparr>last_method := ''Select''\<rparr>)
      else if name = ''Delete'' then (Inr (), (clear_data s)\<lparr>last_method := ''Delete''\<rparr>)
      else if name = ''Update'' then (Inr (), (clear_data s)\<lparr>last_method := ''Update''\<rparr>)
      else if name = ''Insert'' then (Inr (), (clear_data s)\<lparr>last_method := ''Insert''\<rparr>)
      else if name = ''CreateTable''
        then (Inr (), (clear_data s)\<lparr>last_method := ''CreateTable''\<rparr>)
      else if name = ''DropTable''
        then (Inr (), (clear_data s)\<lparr>last_method := ''DropTable''\<rparr>)
      else if name = ''From'' then
        (if last_method s \<notin> set [''Select'', ''Delete''] then (Inl InvalidOrderError, s)
         else (Inr (), s\<lparr>last_method := ''From''\<rparr>))
      else if name = ''Where'' then
        (if last_method s \<notin> set [''From'', ''Set'', ''Update'']
         then (Inl InvalidOrderError, s)
         else (Inr (), s\<lparr>last_method := ''Where''\<rparr>))
      else if name = ''And'' then
        (if last_method s \<notin> set [''Where'', ''Or'', ''And'']
         then (Inl InvalidOrderError, s)
         else (Inr (), s\<lparr>last_method := ''And''\<rparr>))
      else if name = ''Or'' then
        (if last_method s \<notin> set [''Where'', ''And'', ''Or'']
         then (Inl InvalidOrderError, s)
         else (Inr (), s\<lparr>last_method := ''Or''\<rparr>))
      else if name \<in> set [''InnerJoin'', ''LeftJoin'', ''RightJoin'', ''OuterJoin''] then
        (if last_method s \<noteq> ''From'' then (Inl InvalidOrderError, s)
         else (Inr (), s\<lparr>last_method := ''Join''\<rparr>))
      else if name = ''On'' then
        (if last_method s \<noteq> ''Join'' then (Inl InvalidOrderError, s)
         else (Inr (), s\<lparr>last_method := ''On''\<rparr>))
      else (Inr (), s))"

subsection \<open>The method bodies\<close>

text \<open>\<open>Select\<close> replaces its arguments by the first list among them, if there is one.\<close>

fun first_list :: "sel_arg list \<Rightarrow> column list option" where
  "first_list [] = None"
| "first_list (ListArg cs # _) = Some cs"
| "first_list (ColArg _ # as) = first_list as"

fun single_columns :: "sel_arg list \<Rightarrow> column list" where
  "single_columns [] = []"
| "single_columns (ColArg c # as) = c # single_columns as"
| "single_columns (ListArg _ # as) = single_columns as"

definition selected :: "sel_arg list \<Rightarrow> column list" where
  "selected args = (case first_list args of Some cs \<Rightarrow> cs | None \<Rightarrow> single_columns args)"

text \<open>\<open>Values\<close> first wraps every string argument in single quotes.\<close>

fun quote_value :: "literal \<Rightarrow> literal" where
  "quote_value (Str t) = Str ([CHR 0x27] @ t @ [CHR 0x27])"
| "quote_value v = v"

definition append_sql :: "string \<Rightarrow> build_context \<Rightarrow> build_context" where
  "append_sql frag s = s\<lparr>sql := sql s @ [frag]\<rparr>"

fun body :: "string clause \<Rightarrow> build_context \<Rightarrow> build_context" where
  "body (Select args) s =
     (let cols = map full_name (selected args)
      in append_sql (''SELECT '' @ join '', '' cols) (s\<lparr>select_columns := cols\<rparr>))"
| "body (Update t) s = append_sql (''UPDATE '' @ get_name t @ '' SET '') s"
| "body (Insert t) s = append_sql (''INSERT INTO '' @ get_name t @ '' '') s"
| "body Delete s = append_sql ''DELETE '' s"
| "body (From ts) s = append_sql ('' FROM '' @ join '', '' (map get_name ts)) s"
| "body (Where args) s = append_sql ('' WHERE '' @ concat args) s"
| "body (InnerJoin t) s = append_sql ('' INNER JOIN '' @ get_name t) s"
| "body (OuterJoin t) s = append_sql ('' OUTER JOIN '' @ get_name t) s"
| "body (LeftJoin t) s = append_sql ('' LEFT JOIN '' @ get_name t) s"
| "body (RightJoin t) s = append_sql ('' RIGHT JOIN '' @ get_name t) s"
| "body (On args) s = append_sql ('' ON '' @ concat args) s"
| "body (And args) s = append_sql ('' AND '' @ concat args) s"
| "body (Or args) s = append_sql ('' OR '' @ concat args) s"
| "body (Columns cs) s =
     append_sql ('' ('' @ join '', '' (map column_name cs) @ '') '') s"
| "body (Values vs) s =
     append_sql (''VALUES ('' @ join '', '' (map py_str (map quote_value vs)) @ '')'') s"
| "body (Set args) s = append_sql (join '', '' args) s"
| "body (LeftBracket args) s = append_sql (concat args) (append_sql '' ('' s)"
| "body RightBracket s = append_sql '') '' s"
| "body (CreateTable t) s =
     append_sql (''CREATE TABLE '' @ get_name t @ '' ('' @
                 join '', '' (map create (all_columns t)) @ '')'') s"
| "body (DropTable t) s = append_sql (''DROP TABLE IF EXISTS '' @ get_name t) s"

text \<open>
  A method call: the decorator first, then the body, unless the decorator raised.
\<close>

definition invoke :: "string clause \<Rightarrow> unit call" where
  "invoke c s =
     (if decorated c then
        (case check_order (fn_name c) s of
           (Inl e, s') \<Rightarrow> (Inl e, s')
         | (Inr _, s') \<Rightarrow> (Inr (), body c s'))
      else (Inr (), body c s))"

section \<open>Fluent expressions\<close>

text \<open>
  In \<open>query.Where(Users.id < 2)\<close> Python evaluates the argument, a call of
  \<open>IntegerColumn.__lt__\<close> on the shared context, before it calls \<open>Where\<close>. A
  condition argument is such a column expression; the arguments of a call are evaluated
  from left to right, and the first exception ends the evaluation.
\<close>

datatype cond =
    Cmp cmpop column operand
  | In column "literal list"
  | NotIn column "literal list"

fun eval_cond :: "cond \<Rightarrow> string call" where
  "eval_cond (Cmp opr self right) = compare opr self right"
| "eval_cond (In self arg) = Column_In self arg"
| "eval_cond (NotIn self arg) = Column_NotIn self arg"

fun eval_conds :: "('c \<Rightarrow> string call) \<Rightarrow> 'c list \<Rightarrow> string list call" where
  "eval_conds ev [] s = (Inr [], s)"
| "eval_conds ev (c # cs) s =
     (case ev c s of
        (Inl e, s') \<Rightarrow> (Inl e, s')
      | (Inr t, s') \<Rightarrow>
          (case eval_conds ev cs s' of
             (Inl e, s'') \<Rightarrow> (Inl e, s'')
           | (Inr ts, s'') \<Rightarrow> (Inr (t # ts), s'')))"

definition rendered ::
  "(string list \<Rightarrow> string clause) \<Rightarrow> ('c \<Rightarrow> string call) \<Rightarrow> 'c list \<Rightarrow> string clause call"
  where
  "rendered mk ev cs s =
     (case eval_conds ev cs s of
        (Inl e, s') \<Rightarrow> (Inl e, s')
      | (Inr ts, s') \<Rightarrow> (Inr (mk ts), s'))"

fun eval_args :: "('c \<Rightarrow> string call) \<Rightarrow> 'c clause \<Rightarrow> string clause call" where
  "eval_args ev (Where cs) s = rendered Where ev cs s"
| "eval_args ev (On cs) s = rendered On ev cs s"
| "eval_args ev (And cs) s = rendered And ev cs s"
| "eval_args ev (Or cs) s = rendered Or ev cs s"
| "eval_args ev (Set cs) s = rendered Set ev cs s"
| "eval_args ev (LeftBracket cs) s = rendered LeftBracket ev cs s"
| "eval_args ev (Select as) s = (Inr (Select as), s)"
| "eval_args ev (Update t) s = (Inr (Update t), s)"
| "eval_args ev (Insert t) s = (Inr (Insert t), s)"
| "eval_args ev Delete s = (Inr Delete, s)"
| "eval_args ev (From ts) s = (Inr (From ts), s)"
| "eval_args ev (InnerJoin t) s = (Inr (InnerJoin t), s)"
| "eval_args ev (OuterJoin t) s = (Inr (OuterJoin t), s)"
| "eval_args ev (LeftJoin t) s = (Inr (LeftJoin t), s)"
| "eval_args ev (RightJoin t) s = (Inr (RightJoin t), s)"
| "eval_args ev (Columns cs) s = (Inr (Columns cs), s)"
| "eval_args ev (Values vs) s = (Inr (Values vs), s)"
| "eval_args ev RightBracket s = (Inr RightBracket, s)"
| "eval_args ev (CreateTable t) s = (Inr (CreateTable t), s)"
| "eval_args ev (DropTable t) s = (Inr (DropTable t), s)"

text \<open>One fluent call, and a chain of them that stops at the first exception\<close>

definition fluent :: "('c \<Rightarrow> string call) \<Rightarrow> 'c clause \<Rightarrow> unit call" where
  "fluent ev c s =
     (case eval_args ev c s of
        (Inl e, s') \<Rightarrow> (Inl e, s')
      | (Inr c', s') \<Rightarrow> invoke c' s')"

fun run :: "('c \<Rightarrow> string call) \<Rightarrow> 'c clause list \<Rightarrow> unit call" where
  "run ev [] s = (Inr (), s)"
| "run ev (c # cs) s =
     (case fluent ev c s of
        (Inl e, s') \<Rightarrow> (Inl e, s')
      | (Inr _, s') \<Rightarrow> run ev cs s')"

text \<open>The statement text handed to the driver: \<open>''.join(sqlbuilder.sql)\<close>\<close>

definition statement :: "build_context \<Rightarrow> string" where
  "statement s = concat (sql s)"

text \<open>The example schema of \<open>Db\<close>\<close>

definition Users_id :: column where
  "Users_id = \<lparr>table_name = ''Users'', column_name = ''id'', kind = IntegerColumn\<rparr>"

definition Users_login :: column where
  "Users_login = \<lparr>table_name = ''Users'', column_name = ''login'', kind = StringColumn\<rparr>"

definition Users_last_login_time :: column where
  "Users_last_login_time =
     \<lparr>table_name = ''Users'', column_name = ''last_login_time'', kind = DateTimeColumn\<rparr>"

definition Managers_id :: column where
  "Managers_id = \<lparr>table_name = ''Managers'', column_name = ''id'', kind = IntegerColumn\<rparr>"

definition Managers_photo :: column where
  "Managers_photo = \<lparr>table_name = ''Managers'', column_name = ''photo'', kind = StringColumn\<rparr>"

definition Users_flag :: column where
  "Users_flag = \<lparr>table_name = ''Users'', column_name = ''flag'', kind = StringColumn\<rparr>"

definition Users_position :: column where
  "Users_position =
     \<lparr>table_name = ''Users'', column_name = ''position'', kind = IntegerColumn\<rparr>"

definition Users_class_field :: column where
  "Users_class_field =
     \<lparr>table_name = ''Users'', column_name = ''class_field'', kind = StringColumn\<rparr>"

text \<open>
  \<open>MetaTable\<close> fills \<open>all\<close> in the iteration order of the class dictionary; the
  declaration order stands for it here.
\<close>

definition Users :: table where
  "Users = \<lparr>class_name = ''Users'',
            all_columns = [Users_id, Users_login, Users_last_login_time, Users_flag,
                           Users_position, Users_class_field]\<rparr>"

definition Managers :: table where
  "Managers = \<lparr>class_name = ''Managers'', all_columns = [Managers_id, Managers_photo]\<rparr>"

section \<open>Reading a decimal text\<close>




section \<open>The order machine as the specification tabulates it\<close>

text \<open>
  The statement-opening clauses, and the legal predecessor states of each clause that
  the transition table constrains; \<open>None\<close> stands for a clause that the table allows
  in any state or does not list.
\<close>

fun opener :: "'c clause \<Rightarrow> bool" where
  "opener (Select _) = True"
| "opener (Update _) = True"
| "opener (Insert _) = True"
| "opener Delete = True"
| "opener (CreateTable _) = True"
| "opener (DropTable _) = True"
| "opener _ = False"

fun legal_predecessors :: "'c clause \<Rightarrow> string list option" where
  "legal_predecessors (From _) = Some [''Select'', ''Delete'']"
| "legal_predecessors (Where _) = Some [''From'', ''Set'', ''Update'']"
| "legal_predecessors (And _) = Some [''Where'', ''Or'', ''And'']"
| "legal_predecessors (Or _) = Some [''Where'', ''And'', ''Or'']"
| "legal_predecessors (InnerJoin _) = Some [''From'']"
| "legal_predecessors (LeftJoin _) = Some [''From'']"
| "legal_predecessors (RightJoin _) = Some [''From'']"
| "legal_predecessors (OuterJoin _) = Some [''From'']"
| "legal_predecessors (On _) = Some [''Join'']"
| "legal_predecessors _ = None"

section \<open>Placeholders and the parameters bound to them\<close>

text \<open>
  The number of \<open>?\<close> in a text, and the text obtained from it when the driver binds
  a parameter list: the first \<open>?\<close> is replaced by the first parameter, the second by
  the second, and so on, each parameter written by \<open>shw\<close>; a \<open>?\<close> with no
  parameter left stays.
\<close>

definition placeholders :: "string \<Rightarrow> nat" where
  "placeholders t = count_list t CHR ''?''"






text \<open>
  A text is plain when it holds no \<open>?\<close>. A condition is regular when the names of
  its columns and the tuple of \<open>In\<close> or \<open>NotIn\<close> are plain, and its operand is
  either a literal, compared by an ordering operator or, outside state \<open>Join\<close>, by
  \<open>==\<close> or \<open>!=\<close>, or a column, compared by \<open>==\<close> or \<open>!=\<close> in state
  \<open>Join\<close>, where the condition of \<open>On\<close> is built. A call is regular when its
  conditions are and every name and value it writes into the statement is plain, and a
  chain of calls is regular when each call is, in the state in which it is made.
  Literals that are bound to a placeholder are not constrained.
\<close>

definition plain :: "string \<Rightarrow> bool" where
  "plain t = (CHR ''?'' \<notin> set t)"






section \<open>What a comparison leaves behind\<close>

text \<open>A comparison that returns has passed its decorator and returns what \<open>Column\<close> does.\<close>

lemma compare_success:
  assumes "compare opr self right s = (Inr t, s')"
  shows "Column_cmp opr self right s = (Inr t, s')"
  using assms
  by (cases "kind self"; cases opr)
     (auto simp add: compare_def IntegerColumn_cmp_def DateTimeColumn_cmp_def
        IntegerColumn_validate_type_def StringColumn_validate_type_def
        DateTimeColumn_validate_type_def invalid_sign_def
        split: if_splits sum.splits)

text \<open>A condition that returns changes nothing but the parameter list, which it extends.\<close>

lemma eval_cond_context:
  assumes "eval_cond c s = (Inr t, s')"
  shows "\<exists>ps. s' = s\<lparr>data := data s @ ps\<rparr>"
proof (cases c)
  case (Cmp opr self right)
  with assms have "Column_cmp opr self right s = (Inr t, s')"
    by (simp add: compare_success)
  then show ?thesis
    by (cases opr)
       (auto simp add: Column_ordering_def Column_equality_def Let_def
          split: if_splits operand.splits literal.splits intro: exI [of _ "[]"])
next
  case (In self arg)
  with assms show ?thesis by (auto simp add: Column_In_def intro: exI [of _ "[]"])
next
  case (NotIn self arg)
  with assms show ?thesis by (auto simp add: Column_NotIn_def intro: exI [of _ "[]"])
qed

lemma eval_conds_context:
  assumes "eval_conds eval_cond cs s = (Inr ts, s')"
  shows "\<exists>ps. s' = s\<lparr>data := data s @ ps\<rparr>"
  using assms
proof (induction cs arbitrary: s ts)
  case Nil
  then show ?case by (auto intro: exI [of _ "[]"])
next
  case (Cons c cs)
  from Cons.prems obtain t s1 ts1 where
    c: "eval_cond c s = (Inr t, s1)" and
    cs: "eval_conds eval_cond cs s1 = (Inr ts1, s')"
    by (auto split: prod.splits sum.splits)
  from eval_cond_context [OF c] obtain ps where s1: "s1 = s\<lparr>data := data s @ ps\<rparr>"
    by blast
  from Cons.IH [OF cs] obtain qs where s': "s' = s1\<lparr>data := data s1 @ qs\<rparr>"
    by blast
  show ?case
    by (rule exI [of _ "ps @ qs"]) (simp add: s1 s')
qed

lemma eval_args_context:
  assumes "eval_args eval_cond c s = (Inr c', s')"
  shows "(\<exists>ps. s' = s\<lparr>data := data s @ ps\<rparr>) \<and>
         legal_predecessors c' = legal_predecessors c"
proof -
  have same: "\<exists>ps. x = x\<lparr>data := data x @ ps\<rparr>" for x :: build_context
    by (rule exI [of _ "[]"]) simp
  have r: "(\<exists>ps. s' = s\<lparr>data := data s @ ps\<rparr>) \<and> (\<exists>ts. c' = mk ts)"
    if "rendered mk eval_cond cs s = (Inr c', s')" for mk cs
    using that eval_conds_context [of cs s _ s']
    by (auto simp add: rendered_def split: prod.splits sum.splits)
  from assms show ?thesis
    by (cases c) (auto simp add: same dest!: r)
qed

section \<open>The order machine\<close>

text \<open>
  C7: every statement-opening clause succeeds in any state; afterwards the fragment
  list holds the clause's own fragment and nothing older, the parameter list is empty
  and the state is the clause's name.
\<close>

theorem opener_resets:
  assumes "opener c"
  shows "fst (invoke c s) = Inr () \<and>
         sql (snd (invoke c s)) = sql (body c initial) \<and>
         length (sql (snd (invoke c s))) = 1 \<and>
         data (snd (invoke c s)) = [] \<and>
         last_method (snd (invoke c s)) = fn_name c"
  using assms
  by (cases c)
     (simp_all add: invoke_def check_order_def clear_data_def append_sql_def Let_def
        initial_def)

theorem opener_resets_witness:
  "opener (Delete :: string clause) \<and>
   fst (invoke Delete
          (initial\<lparr>last_method := ''Where'', data := [Num 2], sql := [''x'']\<rparr>)) = Inr () \<and>
   sql (snd (invoke Delete
          (initial\<lparr>last_method := ''Where'', data := [Num 2], sql := [''x'']\<rparr>)))
     = [''DELETE ''] \<and>
   data (snd (invoke Delete
          (initial\<lparr>last_method := ''Where'', data := [Num 2], sql := [''x'']\<rparr>))) = [] \<and>
   last_method (snd (invoke Delete
          (initial\<lparr>last_method := ''Where'', data := [Num 2], sql := [''x'']\<rparr>)))
     = ''Delete''"
  using opener_resets [of "Delete :: string clause"
      "initial\<lparr>last_method := ''Where'', data := [Num 2], sql := [''x'']\<rparr>"]
  by (simp add: initial_def append_sql_def)

text \<open>
  A clause method entered in a state outside its legal predecessors raises
  \<open>InvalidOrderError\<close> before it changes anything.
\<close>

lemma invoke_rejected:
  assumes "legal_predecessors c = Some ps" and "last_method s \<notin> set ps"
  shows "invoke c s = (Inl InvalidOrderError, s)"
  using assms
  by (cases c) (auto simp add: invoke_def check_order_def)

text \<open>
  C3 as stated fails at the chain of \<open>test_operations_checking\<close>: the argument of
  \<open>And\<close> is evaluated before \<open>And\<close> is entered and pushes its parameter, \<open>And\<close>
  raises, and the parameter of the rejected call stays in the list, which was empty
  after \<open>Select\<close>.
\<close>

theorem rejected_call_keeps_parameter_counterexample:
  "run eval_cond [Select [ListArg (all_columns Users)]] initial
     = (Inr (),
        \<lparr>last_method = ''Select'', data = [],
         sql = [''SELECT Users.id, Users.login, Users.last_login_time, Users.flag, Users.position, Users.class_field''],
         select_columns = [''Users.id'', ''Users.login'', ''Users.last_login_time'',
                           ''Users.flag'', ''Users.position'', ''Users.class_field'']\<rparr>) \<and>
   run eval_cond
       [Select [ListArg (all_columns Users)], And [Cmp Eq Users_id (Lit (Num 1))]] initial
     = (Inl InvalidOrderError,
        \<lparr>last_method = ''Select'', data = [Num 1],
         sql = [''SELECT Users.id, Users.login, Users.last_login_time, Users.flag, Users.position, Users.class_field''],
         select_columns = [''Users.id'', ''Users.login'', ''Users.last_login_time'',
                           ''Users.flag'', ''Users.position'', ''Users.class_field'']\<rparr>)"
  by (simp add: fluent_def rendered_def invoke_def check_order_def clear_data_def
      append_sql_def compare_def IntegerColumn_cmp_def IntegerColumn_validate_type_def
      Column_equality_def Let_def initial_def Users_def Users_id_def Users_login_def
      Users_last_login_time_def Users_flag_def Users_position_def Users_class_field_def
      selected_def full_name_def)

text \<open>
  C3, amended: when a clause method is called in a state outside its legal
  predecessors and its arguments have been evaluated, the call raises
  \<open>InvalidOrderError\<close> before the body runs, and the method leaves the context as
  it was entered: no fragment is appended and the state is unchanged. The parameters
  that the arguments of the call appended while they were evaluated are in the list
  when the method is entered, and they stay.
\<close>

theorem rejected_call_context:
  assumes "legal_predecessors c = Some ps" and "last_method s \<notin> set ps"
    and "eval_args eval_cond c s = (Inr c', s1)"
  shows "fluent eval_cond c s = (Inl InvalidOrderError, s1) \<and>
         invoke c' s1 = (Inl InvalidOrderError, s1) \<and>
         (\<exists>pushed. s1 = s\<lparr>data := data s @ pushed\<rparr>)"
proof -
  from eval_args_context [OF assms(3)] obtain pushed where
    s1: "s1 = s\<lparr>data := data s @ pushed\<rparr>" and
    lp: "legal_predecessors c' = legal_predecessors c" by blast
  from s1 assms(2) have "last_method s1 \<notin> set ps" by simp
  with lp assms(1) have "invoke c' s1 = (Inl InvalidOrderError, s1)"
    by (simp add: invoke_rejected)
  with assms(3) s1 show ?thesis
    by (auto simp add: fluent_def)
qed

theorem rejected_call_context_witness:
  "legal_predecessors (And [Cmp Eq Users_id (Lit (Num 1))])
     = Some [''Where'', ''Or'', ''And''] \<and>
   ''Select'' \<notin> set [''Where'', ''Or'', ''And''] \<and>
   eval_args eval_cond (And [Cmp Eq Users_id (Lit (Num 1))])
     (initial\<lparr>last_method := ''Select'', sql := [''SELECT Users.id'']\<rparr>)
     = (Inr (And [''Users.id = ?'']),
        initial\<lparr>last_method := ''Select'', sql := [''SELECT Users.id''],
                 data := [Num 1]\<rparr>) \<and>
   fluent eval_cond (And [Cmp Eq Users_id (Lit (Num 1))])
     (initial\<lparr>last_method := ''Select'', sql := [''SELECT Users.id'']\<rparr>)
     = (Inl InvalidOrderError,
        initial\<lparr>last_method := ''Select'', sql := [''SELECT Users.id''],
                 data := [Num 1]\<rparr>) \<and>
   sql (initial\<lparr>last_method := ''Select'', sql := [''SELECT Users.id''],
                 data := [Num 1]\<rparr>) = [''SELECT Users.id'']"
proof -
  let ?s = "initial\<lparr>last_method := ''Select'', sql := [''SELECT Users.id'']\<rparr>"
  let ?s1 = "initial\<lparr>last_method := ''Select'', sql := [''SELECT Users.id''],
                 data := [Num 1]\<rparr>"
  let ?c = "And [Cmp Eq Users_id (Lit (Num 1))]"
  have p: "legal_predecessors ?c = Some [''Where'', ''Or'', ''And'']" by simp
  have n: "last_method ?s \<notin> set [''Where'', ''Or'', ''And'']" by simp
  have e: "eval_args eval_cond ?c ?s = (Inr (And [''Users.id = ?'']), ?s1)"
    by (simp add: rendered_def compare_def IntegerColumn_cmp_def
        IntegerColumn_validate_type_def Column_equality_def Let_def initial_def
        Users_id_def full_name_def)
  from rejected_call_context [OF p n e] p e show ?thesis by simp
qed

text \<open>
  C9: after \<open>Set\<close> the state is \<open>Set\<close>. The code has no branch for \<open>Set\<close> in
  \<open>check_order\<close>: the state stays what it was, \<open>Update\<close> after \<open>Update\<close>, and a
  \<open>Where\<close> that follows a \<open>Set\<close> not preceded by \<open>Update\<close> is rejected.
\<close>

theorem set_leaves_state:
  "last_method (snd (run eval_cond
      [Update Users, Set [Cmp Eq Users_login (Lit (Str ''Mark''))]] initial)) = ''Update'' \<and>
   fst (run eval_cond
      [Select [ColArg Users_id], Set [Cmp Eq Users_login (Lit (Str ''Mark''))],
       Where [Cmp Eq Users_id (Lit (Num 2))]] initial) = Inl InvalidOrderError"
  by (simp add: fluent_def rendered_def invoke_def check_order_def clear_data_def
      append_sql_def compare_def StringColumn_validate_type_def IntegerColumn_cmp_def
      IntegerColumn_validate_type_def Column_equality_def Let_def initial_def
      Users_login_def Users_id_def)

lemma set_keeps_state: "last_method (snd (invoke (Set args) s)) = last_method s"
  by (simp add: invoke_def check_order_def append_sql_def)

section \<open>Operand validation\<close>

text \<open>
  C5: a DateTime column accepts a string of three dash-separated components, rejects
  every other literal with \<open>InvalidTypeError\<close>, and accepts another column. The
  code evaluates \<open>right.split\<close> on the column operand and raises
  \<open>AttributeError\<close>.
\<close>

theorem datetime_column_operand_raises:
  "compare Lt Users_last_login_time (Col Users_id) initial = (Inl AttributeError, initial)"
  by (simp add: compare_def DateTimeColumn_cmp_def DateTimeColumn_validate_type_def
      Users_last_login_time_def)

lemma length_py_split: "length (py_split sep t) = Suc (count_list t sep)"
  by (induction t) (auto split: list.splits)

text \<open>The literal half of C5 holds: the decorator passes exactly the date-shaped strings.\<close>

lemma datetime_literal:
  assumes "kind self = DateTimeColumn"
  shows "compare opr self (Lit v) s =
     (if (\<exists>t. v = Str t \<and> count_list t CHR ''-'' = 2) then Column_cmp opr self (Lit v) s
      else (Inl InvalidTypeError, s))"
  using assms
  by (cases v)
     (auto simp add: compare_def DateTimeColumn_cmp_def DateTimeColumn_validate_type_def
        length_py_split)

lemma datetime_column_operand:
  assumes "kind self = DateTimeColumn"
  shows "compare opr self (Col r) s = (Inl AttributeError, s)"
  using assms
  by (simp add: compare_def DateTimeColumn_cmp_def DateTimeColumn_validate_type_def)

text \<open>
  C6: on a Text column the four ordering comparisons raise \<open>InvalidTypeError\<close> for
  every operand and leave the context untouched; equality and inequality succeed for a
  string and for a column operand.
\<close>

theorem text_column_operators:
  assumes "kind self = StringColumn"
  shows "(opr \<in> {Lt, Le, Gt, Ge} \<longrightarrow> compare opr self right s = (Inl InvalidTypeError, s)) \<and>
         (opr \<in> {Eq, Ne} \<and> (is_basestring right \<or> is_Column right) \<longrightarrow>
            (\<exists>t s'. compare opr self right s = (Inr t, s')))"
  using assms
  by (cases opr)
     (auto simp add: compare_def invalid_sign_def StringColumn_validate_type_def
        Column_equality_def Let_def
        split: operand.splits literal.splits elim!: is_basestring.elims is_Column.elims)

theorem text_column_operators_witness:
  "kind Users_login = StringColumn \<and>
   compare Lt Users_login (Lit (Num 2)) initial = (Inl InvalidTypeError, initial) \<and>
   (\<exists>t s'. compare Eq Users_login (Lit (Str ''admin'')) initial = (Inr t, s'))"
  using text_column_operators [of Users_login Lt "Lit (Num 2)" initial]
        text_column_operators [of Users_login Eq "Lit (Str ''admin'')" initial]
  by (simp add: Users_login_def)

section \<open>Parameterized comparisons\<close>



text \<open>
  C2: against another column an equality appends no entry and renders the column
  reference, against a literal it appends exactly one entry. Outside state \<open>Join\<close>
  the code appends the name of the column operand as a parameter and renders \<open>?\<close>,
  and in state \<open>Join\<close> it writes a string literal into the text and appends nothing.
\<close>

theorem equality_column_operand_pushes_parameter:
  "compare Eq Users_id (Col Managers_id) (initial\<lparr>last_method := ''From''\<rparr>)
     = (Inr ''Users.id = ?'',
        initial\<lparr>last_method := ''From'', data := [Str ''Managers.id'']\<rparr>) \<and>
   compare Ne Users_login (Lit (Str ''admin'')) (initial\<lparr>last_method := ''Join''\<rparr>)
     = (Inr ''Users.login != admin'', initial\<lparr>last_method := ''Join''\<rparr>)"
  by (simp add: compare_def IntegerColumn_cmp_def IntegerColumn_validate_type_def
      StringColumn_validate_type_def Column_equality_def Let_def initial_def Users_id_def
      Managers_id_def Users_login_def full_name_def)

text \<open>
  C4: every successful comparison parameterizes its operand. In state \<open>Join\<close> the
  code concatenates the operand of \<open>==\<close> and \<open>!=\<close> to the text: a string literal
  in the condition of \<open>On\<close> reaches the statement as it is, without quotes, and no
  parameter is bound.
\<close>

theorem join_literal_inlined:
  "run eval_cond
     [Select [ColArg Users_id], From [Users], InnerJoin Managers,
      On [Cmp Eq Users_login (Lit (Str ''x OR 1=1''))]] initial
   = (Inr (),
      \<lparr>last_method = ''On'', data = [],
       sql = [''SELECT Users.id'', '' FROM users'', '' INNER JOIN managers'',
              '' ON Users.login = x OR 1=1''],
       select_columns = [''Users.id'']\<rparr>)"
  by (simp add: fluent_def rendered_def invoke_def check_order_def clear_data_def
      append_sql_def compare_def StringColumn_validate_type_def Column_equality_def Let_def
      initial_def Users_id_def Users_login_def Users_def Managers_def selected_def
      full_name_def get_name_def py_lower_def lower_char_def)

text \<open>The same path raises \<open>TypeError\<close> for a number, which cannot be concatenated.\<close>

lemma join_number_literal_raises:
  "compare Eq Users_id (Lit (Num 2)) (initial\<lparr>last_method := ''Join''\<rparr>)
     = (Inl TypeError, initial\<lparr>last_method := ''Join''\<rparr>)"
  by (simp add: compare_def IntegerColumn_cmp_def IntegerColumn_validate_type_def
      Column_equality_def Let_def initial_def Users_id_def)

section \<open>Inlined literals\<close>


subsection \<open>Numbers can be read back from their text\<close>







subsection \<open>Strings\<close>


subsection \<open>The text of \<open>In\<close>, \<open>NotIn\<close> and \<open>Values\<close>\<close>



text \<open>
  C10: \<open>In\<close> and \<open>NotIn\<close> return for a column of every kind and every sequence of
  operands; no validation runs. A Text column, which rejects the comparison with a
  number, accepts a set of numbers, and a one-element sequence is written with a
  trailing comma.
\<close>

theorem membership_never_invalid_type:
  "eval_cond (In self arg) s = (Inr (full_name self @ '' IN '' @ str_tuple arg), s) \<and>
   eval_cond (NotIn self arg) s = (Inr (full_name self @ '' NOT IN '' @ str_tuple arg), s) \<and>
   str_tuple [x] = ''('' @ py_repr x @ '',)'' \<and>
   eval_cond (Cmp Eq Users_login (Lit (Num 1))) s = (Inl InvalidTypeError, s) \<and>
   eval_cond (In Users_login [Num 1]) s = (Inr ''Users.login IN (1,)'', s)"
  by (simp add: Column_In_def Column_NotIn_def compare_def StringColumn_validate_type_def
      Users_login_def full_name_def str_int_def digits.simps digit_char_def
      maxint_def)

section \<open>Placeholders match parameters\<close>

subsection \<open>Counting and binding over concatenation\<close>

lemma placeholders_append [simp]: "placeholders (a @ b) = placeholders a + placeholders b"
  by (induction a) (simp_all add: placeholders_def)

lemma placeholders_Nil [simp]: "placeholders [] = 0"
  by (simp add: placeholders_def)

lemma plain_append [simp]: "plain (a @ b) = (plain a \<and> plain b)"
  by (auto simp add: plain_def)





subsection \<open>One condition\<close>

lemma plain_op_sign [simp]: "plain (op_sign opr)"
  by (cases opr) (simp_all add: plain_def)





subsection \<open>The conditions of one call\<close>



lemma plain_Nil [simp]: "plain []"
  by (simp add: plain_def)



subsection \<open>One method call\<close>

lemma statement_append_sql [simp]: "statement (append_sql frag s) = statement s @ frag"
  by (simp add: statement_def append_sql_def)

lemma append_sql_fields [simp]:
  "data (append_sql frag s) = data s" "last_method (append_sql frag s) = last_method s"
  by (simp_all add: append_sql_def)










subsection \<open>One fluent call\<close>



lemma statement_initial [simp]: "statement initial = []"
  by (simp add: statement_def initial_def)


lemma plain_Cons [simp]: "plain (c # cs) = (c \<noteq> CHR ''?'' \<and> plain cs)"
  by (auto simp add: plain_def)

lemma placeholders_Cons [simp]:
  "placeholders (c # cs) = (if c = CHR ''?'' then Suc (placeholders cs) else placeholders cs)"
  by (simp add: placeholders_def)





lemma statement_select_columns [simp]: "statement (s\<lparr>select_columns := x\<rparr>) = statement s"
  by (simp add: statement_def)


subsection \<open>A chain of calls\<close>








end
